theory Spec2Isabelle
  imports Main "HOL-Library.Word"
begin

section \<open>JavaScript values\<close>

text \<open>
  A JavaScript string is a sequence of UTF-16 code units. The string literals of
  \<^verbatim>\<open>server.js\<close> are ASCII, so \<open>lit\<close> turns the Isabelle rendering of one into
  its code units.
\<close>

type_synonym js_string = "16 word list"

definition lit :: "string \<Rightarrow> js_string" where
  "lit s = map of_char s"

text \<open>
  \<^verbatim>\<open>const { language, code } = req.body\<close> reads two fields of the body that
  \<^verbatim>\<open>express.json()\<close> parsed. A field is absent (\<open>JUndefined\<close>) or holds a JSON value:
  \<^verbatim>\<open>null\<close>, a boolean, a number, a string, an array of values, or an object (its own
  properties, as \<^verbatim>\<open>JSON.parse\<close> makes them). Numbers are the integer-valued ones (of
  magnitude below \<open>10^21\<close>, where JavaScript prints them in plain decimal).
\<close>

datatype js_value =
    JUndefined
  | JNull
  | JBoolean bool
  | JNumber int
  | JString js_string
  | JArray "js_value list"
  | JObject "(js_string \<times> js_value) list"

record request_body =
  language :: js_value
  code :: js_value

text \<open>\<open>ToBoolean\<close>: what \<^verbatim>\<open>!language\<close> and \<^verbatim>\<open>!code\<close> test.\<close>

fun truthy :: "js_value \<Rightarrow> bool" where
  "truthy JUndefined = False"
| "truthy JNull = False"
| "truthy (JBoolean b) = b"
| "truthy (JNumber n) = (n \<noteq> 0)"
| "truthy (JString s) = (s \<noteq> [])"
| "truthy (JArray xs) = True"
| "truthy (JObject properties) = True"

fun digits :: "nat \<Rightarrow> js_string" where
  "digits n =
     (if n < 10 then [of_nat (48 + n)]
      else digits (n div 10) @ [of_nat (48 + n mod 10)])"

declare digits.simps [simp del]

definition numberToString :: "int \<Rightarrow> js_string" where
  "numberToString n = (if n < 0 then lit ''-'' @ digits (nat (- n)) else digits (nat n))"

text \<open>
  \<open>ToString\<close>, the conversion behind \<open>ToPropertyKey\<close>: the key that
  \<^verbatim>\<open>languageImageMap[language]\<close> looks up. An array is converted by
  \<^verbatim>\<open>Array.prototype.join\<close>: its elements converted in order and separated by commas,
  \<^verbatim>\<open>undefined\<close> and \<^verbatim>\<open>null\<close> elements giving the empty string. An object is converted
  by the \<^verbatim>\<open>toString\<close> it inherits, unless it has an own property of that name: a
  parsed JSON value is never a function, so then neither \<^verbatim>\<open>toString\<close> nor
  \<^verbatim>\<open>valueOf\<close> gives a primitive and the conversion throws a \<^verbatim>\<open>TypeError\<close>
  (\<open>None\<close>).
\<close>

fun toString :: "js_value \<Rightarrow> js_string option"
  and join :: "js_value list \<Rightarrow> js_string option" where
  "toString JUndefined = Some (lit ''undefined'')"
| "toString JNull = Some (lit ''null'')"
| "toString (JBoolean b) = Some (if b then lit ''true'' else lit ''false'')"
| "toString (JNumber n) = Some (numberToString n)"
| "toString (JString s) = Some s"
| "toString (JArray xs) = join xs"
| "toString (JObject properties) =
     (if lit ''toString'' \<in> set (map fst properties) then None
      else Some (lit ''[object Object]''))"
| "join [] = Some []"
| "join (x # xs) =
     (case (if x = JUndefined \<or> x = JNull then Some [] else toString x) of
        None \<Rightarrow> None
      | Some s \<Rightarrow>
          if xs = [] then Some s
          else (case join xs of None \<Rightarrow> None | Some t \<Rightarrow> Some (s @ lit '','' @ t)))"

definition toPropertyKey :: "js_value \<Rightarrow> js_string option" where
  "toPropertyKey v = toString v"

text \<open>
  The value of a property read on an object literal: the object's own value, else the
  member of \<^verbatim>\<open>Object.prototype\<close> of that name (a function, or for \<^verbatim>\<open>__proto__\<close> the
  prototype object itself), else \<^verbatim>\<open>undefined\<close>.
\<close>

datatype property_value =
    Missing
  | Own js_string
  | Inherited js_string

definition Object_prototype :: "js_string list" where
  "Object_prototype = map lit
     [''constructor'', ''__defineGetter__'', ''__defineSetter__'', ''hasOwnProperty'',
      ''__lookupGetter__'', ''__lookupSetter__'', ''isPrototypeOf'',
      ''propertyIsEnumerable'', ''toString'', ''valueOf'', ''__proto__'',
      ''toLocaleString'']"

definition getProperty :: "(js_string \<times> js_string) list \<Rightarrow> js_string \<Rightarrow> property_value" where
  "getProperty obj key =
     (case map_of obj key of
        Some v \<Rightarrow> Own v
      | None \<Rightarrow> if key \<in> set Object_prototype then Inherited key else Missing)"

fun truthy_property :: "property_value \<Rightarrow> bool" where
  "truthy_property Missing = False"
| "truthy_property (Own v) = (v \<noteq> [])"
| "truthy_property (Inherited k) = True"

text \<open>
  \<^verbatim>\<open>String.prototype.trim\<close> strips the code units of ECMAScript's WhiteSpace and
  LineTerminator productions from both ends.
\<close>

definition isWhiteSpace :: "16 word \<Rightarrow> bool" where
  "isWhiteSpace c =
     (c \<in> set [0x0009, 0x000A, 0x000B, 0x000C, 0x000D, 0x0020, 0x00A0, 0x1680,
                0x2028, 0x2029, 0x202F, 0x205F, 0x3000, 0xFEFF]
      \<or> (0x2000 \<le> c \<and> c \<le> 0x200A))"

definition trim :: "js_string \<Rightarrow> js_string" where
  "trim s = rev (dropWhile isWhiteSpace (rev (dropWhile isWhiteSpace s)))"

text \<open>An \<^verbatim>\<open>Error\<close> object: its message (which may be absent) and its stack trace.\<close>

record js_error =
  message :: "js_string option"
  stack :: js_string

section \<open>The container runtime\<close>

datatype container = Container js_string \<comment> \<open>the handle dockerode returns, by its \<^verbatim>\<open>id\<close>\<close>

type_synonym image_info = js_string

type_synonym pull_stream = nat

datatype status_code = StatusUndefined | StatusNull | StatusNumber int

record wait_result =
  StatusCode :: status_code

record host_config =
  CpuShares :: int
  Memory :: int
  NetworkMode :: js_string

record create_options =
  Image :: property_value
  Cmd :: "js_value list"
  Tty :: bool
  HostConfig :: host_config

text \<open>
  The collaborators of the handler are not part of the repository, so what they answer
  is a parameter: one function per operation, from the operation's argument to the
  outcome of the call. \<open>Inl e\<close> (or \<open>Some e\<close> where nothing is returned) is a rejected
  promise or an error handed to a callback. A pull stream is followed to its completion
  signal by \<open>followProgress\<close>; an attached stream is given by the decoded text chunks
  (\<^verbatim>\<open>chunk.toString('utf8')\<close>) that reach \<^verbatim>\<open>logStream\<close> before the response is built.
  \<open>captureStack\<close> is the stack trace the engine gives an error made while the handler
  runs.
\<close>

record environment =
  listImages :: "property_value \<Rightarrow> js_error + image_info list"
  pull :: "property_value \<Rightarrow> js_error + pull_stream"
  followProgress :: "pull_stream \<Rightarrow> js_error option"
  createContainer :: "create_options \<Rightarrow> js_error + container"
  attach :: "container \<Rightarrow> js_error + js_string list"
  start :: "container \<Rightarrow> js_error option"
  wait :: "container \<Rightarrow> js_error + wait_result"
  remove :: "container \<Rightarrow> js_error option"
  captureStack :: js_string

text \<open>Every call to the runtime, with its outcome, in the order the handler makes them.\<close>

datatype docker_call =
    ListImages property_value "js_error + image_info list"
  | Pull property_value "js_error + pull_stream"
  | FollowProgress pull_stream "js_error option"
  | CreateContainer create_options "js_error + container"
  | Attach container "js_error + js_string list"
  | Start container "js_error option"
  | Wait container "js_error + wait_result"
  | Remove container "js_error option"

datatype console_entry =
    ConsoleLog string \<comment> \<open>\<^verbatim>\<open>console.log\<close> of a template, named by its text\<close>
  | ConsoleError string js_error \<comment> \<open>\<^verbatim>\<open>console.error(text, error)\<close>\<close>

text \<open>
  What a request can change: the runtime's container list (a created container joins
  it, a removed one leaves it; a failed call changes nothing), the record of the calls
  made, and the process console.
\<close>

record world =
  containers :: "container list"
  calls :: "docker_call list"
  console :: "console_entry list"

definition console_log :: "string \<Rightarrow> world \<Rightarrow> world" where
  "console_log text w = w\<lparr>console := console w @ [ConsoleLog text]\<rparr>"

definition console_error :: "string \<Rightarrow> js_error \<Rightarrow> world \<Rightarrow> world" where
  "console_error text err w = w\<lparr>console := console w @ [ConsoleError text err]\<rparr>"

definition called :: "docker_call \<Rightarrow> world \<Rightarrow> world" where
  "called c w = w\<lparr>calls := calls w @ [c]\<rparr>"

definition docker_createContainer ::
    "environment \<Rightarrow> create_options \<Rightarrow> world \<Rightarrow> (js_error + container) \<times> world" where
  "docker_createContainer env opts w =
     (let r = createContainer env opts; w1 = called (CreateContainer opts r) w in
      case r of
        Inl e \<Rightarrow> (Inl e, w1)
      | Inr c \<Rightarrow> (Inr c, w1\<lparr>containers := containers w1 @ [c]\<rparr>))"

definition container_remove ::
    "environment \<Rightarrow> container \<Rightarrow> world \<Rightarrow> (js_error + unit) \<times> world" where
  "container_remove env c w =
     (let r = remove env c; w1 = called (Remove c r) w in
      case r of
        Some e \<Rightarrow> (Inl e, w1)
      | None \<Rightarrow> (Inr (), w1\<lparr>containers := removeAll c (containers w1)\<rparr>))"

section \<open>server.js\<close>

definition languageImageMap :: "(js_string \<times> js_string) list" where
  "languageImageMap =
     [(lit ''python'', lit ''python:3.9-slim''),
      (lit ''javascript'', lit ''node:18-alpine'')]"

record response =
  status :: nat
  json :: "(string \<times> js_string) list"

text \<open>\<^verbatim>\<open>async function pullImage(imageName)\<close>\<close>

definition pullImage ::
    "environment \<Rightarrow> property_value \<Rightarrow> world \<Rightarrow> (js_error + unit) \<times> world" where
  "pullImage env imageName w =
     (let w1 = console_log ''Checking for image: ${imageName}'' w;
          images = listImages env imageName;
          w2 = called (ListImages imageName images) w1 in
      case images of
        Inl e \<Rightarrow> (Inl e, w2)
      | Inr imgs \<Rightarrow>
          if length imgs = 0 then
            (let w3 = console_log ''Image not found locally. Pulling ${imageName}...'' w2;
                 pulled = pull env imageName;
                 w4 = called (Pull imageName pulled) w3 in
             case pulled of
               Inl e \<Rightarrow> (Inl e, w4)
             | Inr stream \<Rightarrow>
                 (let finished = followProgress env stream;
                      w5 = called (FollowProgress stream finished) w4 in
                  case finished of
                    Some err \<Rightarrow> (Inl err, w5)
                  | None \<Rightarrow>
                      (Inr (), console_log ''Image ${imageName} pulled successfully.'' w5)))
          else (Inr (), console_log ''Image ${imageName} found locally.'' w2))"

text \<open>
  Lines 61 to 73: \<^verbatim>\<open>output\<close> starts empty and every chunk that reaches \<^verbatim>\<open>logStream\<close>
  is appended. \<^verbatim>\<open>container.attach\<close> is given a callback, so an attach error goes to the
  callback, which logs it and returns: nothing is thrown and no stream is connected.
\<close>

definition container_attach ::
    "environment \<Rightarrow> container \<Rightarrow> world \<Rightarrow> js_string \<times> world" where
  "container_attach env c w =
     (let r = attach env c; w1 = called (Attach c r) w in
      case r of
        Inl err \<Rightarrow> ([], console_error ''Error attaching to container:'' err w1)
      | Inr chunks \<Rightarrow> (foldl (\<lambda>output chunk. output @ chunk) [] chunks, w1))"

text \<open>An error made while the handler runs: by \<^verbatim>\<open>new Error(msg)\<close>, or by the engine.\<close>

definition new_Error :: "environment \<Rightarrow> js_string \<Rightarrow> js_error" where
  "new_Error env msg = \<lparr>message = Some msg, stack = captureStack env\<rparr>"

text \<open>The argument of \<^verbatim>\<open>docker.createContainer\<close> (lines 45 to 58).\<close>

definition container_options :: "property_value \<Rightarrow> js_value list \<Rightarrow> create_options" where
  "container_options imageName cmd =
     \<lparr>Image = imageName, Cmd = cmd, Tty = False,
      HostConfig = \<lparr>CpuShares = 512, Memory = 256 * 1024 * 1024,
                    NetworkMode = lit ''none''\<rparr>\<rparr>"

text \<open>
  The \<^verbatim>\<open>try\<close> block (lines 38 to 90). It ends in the response it sends or in the
  error it throws; the middle component is the variable \<^verbatim>\<open>container\<close>, still
  undefined (\<open>None\<close>) when the block is left before \<^verbatim>\<open>createContainer\<close> resolves.
\<close>

definition try_block ::
    "environment \<Rightarrow> property_value \<Rightarrow> js_value list \<Rightarrow> world
       \<Rightarrow> (js_error + response) \<times> container option \<times> world" where
  "try_block env imageName cmd w =
     (case pullImage env imageName
             (console_log
                ''Attempting to run code for language: ${language} using image: ${imageName}'' w) of
        (Inl e, w1) \<Rightarrow> (Inl e, None, w1)
      | (Inr u, w1) \<Rightarrow>
          (case docker_createContainer env (container_options imageName cmd) w1 of
             (Inl e, w2) \<Rightarrow> (Inl e, None, w2)
           | (Inr container, w2) \<Rightarrow>
               (case container_attach env container w2 of
                  (output, w3) \<Rightarrow>
                    (let started = start env container;
                         w4 = called (Start container started) w3 in
                     case started of
                       Some e \<Rightarrow> (Inl e, Some container, w4)
                     | None \<Rightarrow>
                         (let w5 = console_log ''Container ${container.id.substring(0,12)} started.'' w4;
                              waited = wait env container;
                              w6 = called (Wait container waited) w5 in
                          case waited of
                            Inl e \<Rightarrow> (Inl e, Some container, w6)
                          | Inr waitResult \<Rightarrow>
                              if StatusCode waitResult = StatusNull then
                                (Inl (new_Error env (lit ''Execution timed out.'')),
                                 Some container, w6)
                              else
                                (Inr \<lparr>status = 200, json = [(''output'', trim output)]\<rparr>,
                                 Some container,
                                 console_log
                                   ''Container finished with status code: ${waitResult.StatusCode}''
                                   w6))))))"

text \<open>The \<^verbatim>\<open>catch\<close> block (lines 92 to 94); \<open>or_else\<close> is \<^verbatim>\<open>error.message || '...'\<close>.\<close>

definition or_else :: "js_string option \<Rightarrow> js_string \<Rightarrow> js_string" where
  "or_else m fallback =
     (case m of None \<Rightarrow> fallback | Some s \<Rightarrow> if s \<noteq> [] then s else fallback)"

definition catch_block :: "js_error \<Rightarrow> world \<Rightarrow> response \<times> world" where
  "catch_block error w =
     (\<lparr>status = 500,
       json = [(''error'', or_else (message error) (lit ''An error occurred during execution.''))]\<rparr>,
      console_error ''Error during code execution:'' error w)"

text \<open>The \<^verbatim>\<open>finally\<close> block (lines 95 to 105).\<close>

definition finally_block :: "environment \<Rightarrow> container option \<Rightarrow> world \<Rightarrow> world" where
  "finally_block env container w =
     (case container of
        None \<Rightarrow> w
      | Some c \<Rightarrow>
          (case container_remove env c w of
             (Inl removeError, w1) \<Rightarrow> console_error ''Error removing container:'' removeError w1
           | (Inr u, w1) \<Rightarrow> console_log ''Container ${container.id.substring(0,12)} removed.'' w1))"

text \<open>
  Line 26, \<^verbatim>\<open>languageImageMap[language]\<close> (\<open>None\<close> when the conversion of the key
  throws), and lines 32 to 34, the command: the comparison \<^verbatim>\<open>language === 'python'\<close> is
  strict, so it holds for that string only.
\<close>

definition imageName_of :: "js_value \<Rightarrow> property_value option" where
  "imageName_of lang =
     (case toPropertyKey lang of
        None \<Rightarrow> None
      | Some key \<Rightarrow> Some (getProperty languageImageMap key))"

definition cmd_of :: "js_value \<Rightarrow> js_value \<Rightarrow> js_value list" where
  "cmd_of lang source =
     (if lang = JString (lit ''python'')
      then [JString (lit ''python''), JString (lit ''-c''), source]
      else [JString (lit ''node''), JString (lit ''-e''), source])"

text \<open>
  The route handler \<^verbatim>\<open>app.post('/execute', ...)\<close>: the response it sends (\<open>Inr\<close>) and
  the world it leaves. Line 26 is outside the \<^verbatim>\<open>try\<close> block, so a \<^verbatim>\<open>TypeError\<close> of
  the key conversion leaves the handler uncaught (\<open>Inl\<close>): its promise rejects and it has
  sent no response. The template of line 39 converts \<^verbatim>\<open>language\<close> the same way, after
  line 26 has done so without an error.
\<close>

definition execute ::
    "environment \<Rightarrow> request_body \<Rightarrow> world \<Rightarrow> (js_error + response) \<times> world" where
  "execute env body w =
     (if \<not> truthy (language body) \<or> \<not> truthy (code body) then
        (Inr \<lparr>status = 400, json = [(''error'', lit ''Language and code are required.'')]\<rparr>, w)
      else
        (case imageName_of (language body) of
           None \<Rightarrow> (Inl (new_Error env (lit ''Cannot convert object to primitive value'')), w)
         | Some imageName \<Rightarrow>
             if \<not> truthy_property imageName then
               (Inr \<lparr>status = 400, json = [(''error'', lit ''Unsupported language.'')]\<rparr>, w)
             else
               (let cmd = cmd_of (language body) (code body) in
                case try_block env imageName cmd w of
                  (Inr res, container, w1) \<Rightarrow> (Inr res, finally_block env container w1)
                | (Inl error, container, w1) \<Rightarrow>
                    (case catch_block error w1 of
                       (res, w2) \<Rightarrow> (Inr res, finally_block env container w2)))))"

section \<open>The calls of a request\<close>

text \<open>The world before any request, and the runtime calls a request adds to the record.\<close>

definition idle :: world where
  "idle = \<lparr>containers = [], calls = [], console = []\<rparr>"

definition request_calls :: "environment \<Rightarrow> request_body \<Rightarrow> world \<Rightarrow> docker_call list" where
  "request_calls env body w = drop (length (calls w)) (calls (snd (execute env body w)))"

definition pullImage_calls :: "environment \<Rightarrow> property_value \<Rightarrow> docker_call list" where
  "pullImage_calls env imageName = calls (snd (pullImage env imageName idle))"

text \<open>The options a request creates its container with, once its image name is known.\<close>

definition request_options :: "property_value \<Rightarrow> request_body \<Rightarrow> create_options" where
  "request_options imageName body =
     container_options imageName (cmd_of (language body) (code body))"

text \<open>Whether a call creates a container.\<close>

fun is_createContainer :: "docker_call \<Rightarrow> bool" where
  "is_createContainer (CreateContainer opts r) = True"
| "is_createContainer c = False"

section \<open>Example requests and runtimes\<close>

text \<open>
  The request of the specification's example, and a runtime in which every call
  succeeds: the image is listed locally, the container prints \<^verbatim>\<open>2\<close> and a newline
  and exits with status 0.
\<close>

definition python_request :: request_body where
  "python_request = \<lparr>language = JString (lit ''python''), code = JString (lit ''print(1+1)'')\<rparr>"

definition python_container :: container where
  "python_container = Container (lit ''4f1c2d9e7a30'')"

definition daemon_ok :: environment where
  "daemon_ok =
     \<lparr>listImages = (\<lambda>imageName. Inr [lit ''sha256:0a1b'']),
      pull = (\<lambda>imageName. Inr 0),
      followProgress = (\<lambda>stream. None),
      createContainer = (\<lambda>opts. Inr python_container),
      attach = (\<lambda>c. Inr [lit ''2'', [0x000A]]),
      start = (\<lambda>c. None),
      wait = (\<lambda>c. Inr \<lparr>StatusCode = StatusNumber 0\<rparr>),
      remove = (\<lambda>c. None),
      captureStack = lit ''Error: Execution timed out. at server.js:84:17''\<rparr>"

text \<open>An error of the daemon, as dockerode reports one.\<close>

definition daemon_error :: js_error where
  "daemon_error =
     \<lparr>message = Some (lit ''(HTTP code 500) server error''),
      stack = lit ''Error: (HTTP code 500) server error at docker-modem/lib/modem.js:343:17''\<rparr>"

text \<open>Variations: one answer of the runtime changed, everything else as before.\<close>

definition daemon_no_image :: environment where
  "daemon_no_image = daemon_ok\<lparr>listImages := (\<lambda>imageName. Inr [])\<rparr>"

definition daemon_status_absent :: environment where
  "daemon_status_absent = daemon_ok\<lparr>wait := (\<lambda>c. Inr \<lparr>StatusCode = StatusUndefined\<rparr>)\<rparr>"

definition daemon_status_null :: environment where
  "daemon_status_null = daemon_ok\<lparr>wait := (\<lambda>c. Inr \<lparr>StatusCode = StatusNull\<rparr>)\<rparr>"

definition daemon_attach_fails :: environment where
  "daemon_attach_fails = daemon_ok\<lparr>attach := (\<lambda>c. Inl daemon_error)\<rparr>"

definition daemon_create_fails :: environment where
  "daemon_create_fails = daemon_ok\<lparr>createContainer := (\<lambda>opts. Inl daemon_error)\<rparr>"

definition daemon_list_fails :: environment where
  "daemon_list_fails = daemon_ok\<lparr>listImages := (\<lambda>imageName. Inl daemon_error)\<rparr>"

definition daemon_remove_fails :: environment where
  "daemon_remove_fails = daemon_ok\<lparr>remove := (\<lambda>c. Some daemon_error)\<rparr>"

text \<open>An error that carries no message, and a runtime whose \<^verbatim>\<open>start\<close> fails with it.\<close>

definition silent_error :: js_error where
  "silent_error = \<lparr>message = None, stack = lit ''at docker-modem/lib/modem.js:343:17''\<rparr>"

definition daemon_start_fails :: environment where
  "daemon_start_fails = daemon_ok\<lparr>start := (\<lambda>c. Some silent_error)\<rparr>"

text \<open>
  A request whose \<^verbatim>\<open>language\<close> is the array \<^verbatim>\<open>["python"]\<close>: truthy, converted to
  the key \<^verbatim>\<open>python\<close> by the lookup, and not strictly equal to the string.
\<close>

definition array_request :: request_body where
  "array_request =
     \<lparr>language = JArray [JString (lit ''python'')], code = JString (lit ''print(1)'')\<rparr>"

section \<open>The paths through the handler\<close>

subsection \<open>Bookkeeping\<close>

lemma calls_console_log [simp]: "calls (console_log t w) = calls w"
  and containers_console_log [simp]: "containers (console_log t w) = containers w"
  and console_console_log [simp]: "console (console_log t w) = console w @ [ConsoleLog t]"
  by (simp_all add: console_log_def)

lemma calls_console_error [simp]: "calls (console_error t e w) = calls w"
  and containers_console_error [simp]: "containers (console_error t e w) = containers w"
  and console_console_error [simp]: "console (console_error t e w) = console w @ [ConsoleError t e]"
  by (simp_all add: console_error_def)

lemma calls_called [simp]: "calls (called c w) = calls w @ [c]"
  and containers_called [simp]: "containers (called c w) = containers w"
  and console_called [simp]: "console (called c w) = console w"
  by (simp_all add: called_def)

lemma pullImage_fst: "fst (pullImage env i w) = fst (pullImage env i idle)"
  by (simp add: pullImage_def Let_def split: sum.splits option.splits)

lemma pullImage_calls_eq: "calls (snd (pullImage env i w)) = calls w @ pullImage_calls env i"
  by (simp add: pullImage_calls_def pullImage_def idle_def Let_def split: sum.splits option.splits)

lemma pullImage_containers: "containers (snd (pullImage env i w)) = containers w"
  by (simp add: pullImage_def Let_def split: sum.splits option.splits)

lemma pullImage_calls_unfold:
  "pullImage_calls env i =
     (case listImages env i of
        Inl e \<Rightarrow> [ListImages i (Inl e)]
      | Inr imgs \<Rightarrow>
          ListImages i (Inr imgs) #
          (if imgs = [] then
             (case pull env i of
                Inl e \<Rightarrow> [Pull i (Inl e)]
              | Inr s \<Rightarrow> [Pull i (Inr s), FollowProgress s (followProgress env s)])
           else []))"
  by (simp add: pullImage_calls_def pullImage_def idle_def Let_def split: sum.splits option.splits)

lemma container_attach_fst:
  "fst (container_attach env c w) =
     (case attach env c of Inl err \<Rightarrow> [] | Inr chunks \<Rightarrow> concat chunks)"
proof -
  have "foldl (\<lambda>output chunk. output @ chunk) acc chunks = acc @ concat chunks"
    for acc :: js_string and chunks
    by (induction chunks arbitrary: acc) simp_all
  then show ?thesis
    by (simp add: container_attach_def Let_def split: sum.splits)
qed

lemma container_attach_snd:
  "calls (snd (container_attach env c w)) = calls w @ [Attach c (attach env c)]"
  "containers (snd (container_attach env c w)) = containers w"
  by (simp_all add: container_attach_def Let_def split: sum.splits)

lemma docker_createContainer_Inl:
  assumes "createContainer env opts = Inl e"
  shows "docker_createContainer env opts w = (Inl e, called (CreateContainer opts (Inl e)) w)"
  using assms by (simp add: docker_createContainer_def Let_def)

lemma docker_createContainer_Inr:
  assumes "createContainer env opts = Inr c"
  shows "\<exists>w1. docker_createContainer env opts w = (Inr c, w1)
           \<and> calls w1 = calls w @ [CreateContainer opts (Inr c)]
           \<and> containers w1 = containers w @ [c]"
  using assms by (simp add: docker_createContainer_def Let_def)

lemma container_attach_console:
  assumes "attach env c = Inl a"
  shows "ConsoleError ''Error attaching to container:'' a
           \<in> set (console (snd (container_attach env c w)))"
  using assms by (simp add: container_attach_def Let_def)

subsection \<open>The try block, path by path\<close>

text \<open>
  Each way through the \<^verbatim>\<open>try\<close> block, named by where it ends: what the runtime
  answered on the way, what the block yields, the calls it added and the containers it
  left listed.
\<close>

lemma try_block_cases [case_names images_failed create_failed start_failed wait_failed timed_out finished]:
  obtains
    (images_failed) e w1 where
      "fst (pullImage env i idle) = Inl e"
      "try_block env i cmd w = (Inl e, None, w1)"
      "calls w1 = calls w @ pullImage_calls env i"
      "containers w1 = containers w"
  | (create_failed) e w1 where
      "fst (pullImage env i idle) = Inr ()"
      "createContainer env (container_options i cmd) = Inl e"
      "try_block env i cmd w = (Inl e, None, w1)"
      "calls w1 = calls w @ pullImage_calls env i @ [CreateContainer (container_options i cmd) (Inl e)]"
      "containers w1 = containers w"
  | (start_failed) c e w1 where
      "fst (pullImage env i idle) = Inr ()"
      "createContainer env (container_options i cmd) = Inr c"
      "start env c = Some e"
      "try_block env i cmd w = (Inl e, Some c, w1)"
      "calls w1 = calls w @ pullImage_calls env i @
         [CreateContainer (container_options i cmd) (Inr c), Attach c (attach env c), Start c (Some e)]"
      "containers w1 = containers w @ [c]"
      "\<forall>a. attach env c = Inl a
         \<longrightarrow> ConsoleError ''Error attaching to container:'' a \<in> set (console w1)"
  | (wait_failed) c e w1 where
      "fst (pullImage env i idle) = Inr ()"
      "createContainer env (container_options i cmd) = Inr c"
      "start env c = None"
      "wait env c = Inl e"
      "try_block env i cmd w = (Inl e, Some c, w1)"
      "calls w1 = calls w @ pullImage_calls env i @
         [CreateContainer (container_options i cmd) (Inr c), Attach c (attach env c), Start c None,
          Wait c (Inl e)]"
      "containers w1 = containers w @ [c]"
      "\<forall>a. attach env c = Inl a
         \<longrightarrow> ConsoleError ''Error attaching to container:'' a \<in> set (console w1)"
  | (timed_out) c wr w1 where
      "fst (pullImage env i idle) = Inr ()"
      "createContainer env (container_options i cmd) = Inr c"
      "start env c = None"
      "wait env c = Inr wr"
      "StatusCode wr = StatusNull"
      "try_block env i cmd w = (Inl (new_Error env (lit ''Execution timed out.'')), Some c, w1)"
      "calls w1 = calls w @ pullImage_calls env i @
         [CreateContainer (container_options i cmd) (Inr c), Attach c (attach env c), Start c None,
          Wait c (Inr wr)]"
      "containers w1 = containers w @ [c]"
      "\<forall>a. attach env c = Inl a
         \<longrightarrow> ConsoleError ''Error attaching to container:'' a \<in> set (console w1)"
  | (finished) c wr w1 where
      "fst (pullImage env i idle) = Inr ()"
      "createContainer env (container_options i cmd) = Inr c"
      "start env c = None"
      "wait env c = Inr wr"
      "StatusCode wr \<noteq> StatusNull"
      "try_block env i cmd w =
         (Inr \<lparr>status = 200, json = [(''output'', trim (fst (container_attach env c idle)))]\<rparr>,
          Some c, w1)"
      "calls w1 = calls w @ pullImage_calls env i @
         [CreateContainer (container_options i cmd) (Inr c), Attach c (attach env c), Start c None,
          Wait c (Inr wr)]"
      "containers w1 = containers w @ [c]"
      "\<forall>a. attach env c = Inl a
         \<longrightarrow> ConsoleError ''Error attaching to container:'' a \<in> set (console w1)"
proof -
  define w0 where
    "w0 = console_log ''Attempting to run code for language: ${language} using image: ${imageName}'' w"
  obtain r wp where p: "pullImage env i w0 = (r, wp)"
    by (cases "pullImage env i w0")
  have r: "fst (pullImage env i idle) = r"
    using p pullImage_fst [of env i w0] by simp
  have wp: "calls wp = calls w @ pullImage_calls env i" "containers wp = containers w"
    using p pullImage_calls_eq [of env i w0] pullImage_containers [of env i w0]
    by (simp_all add: w0_def)
  show thesis
  proof (cases r)
    case (Inl e)
    then have "try_block env i cmd w = (Inl e, None, wp)"
      using p by (simp add: try_block_def w0_def)
    then show thesis using images_failed r Inl wp by blast
  next
    case (Inr u)
    then have ok: "fst (pullImage env i idle) = Inr ()" using r by simp
    show thesis
    proof (cases "createContainer env (container_options i cmd)")
      case (Inl e)
      then have "try_block env i cmd w =
          (Inl e, None, called (CreateContainer (container_options i cmd) (Inl e)) wp)"
        using p Inr by (simp add: try_block_def w0_def docker_createContainer_Inl)
      then show thesis using create_failed [OF ok Inl] wp by simp
    next
      case c: (Inr c)
      then obtain w2 where w2:
          "docker_createContainer env (container_options i cmd) wp = (Inr c, w2)"
          "calls w2 = calls wp @ [CreateContainer (container_options i cmd) (Inr c)]"
          "containers w2 = containers wp @ [c]"
        using docker_createContainer_Inr by blast
      obtain out w3 where a: "container_attach env c w2 = (out, w3)"
        by (cases "container_attach env c w2")
      have out: "out = fst (container_attach env c idle)"
        using a container_attach_fst [of env c w2] container_attach_fst [of env c idle] by simp
      have w3: "calls w3 = calls w2 @ [Attach c (attach env c)]" "containers w3 = containers w2"
        using a container_attach_snd [of env c w2] by simp_all
      have logged: "\<forall>a. attach env c = Inl a
          \<longrightarrow> ConsoleError ''Error attaching to container:'' a \<in> set (console w3)"
        using a container_attach_console [of env c _ w2] by auto
      show thesis
      proof (cases "start env c")
        case (Some e)
        then have "try_block env i cmd w = (Inl e, Some c, called (Start c (Some e)) w3)"
          using p Inr w2(1) a by (simp add: try_block_def w0_def Let_def)
        then show thesis using start_failed [OF ok c Some] wp w2 w3 logged by simp
      next
        case None
        show thesis
        proof (cases "wait env c")
          case (Inl e)
          then have "\<exists>w6. try_block env i cmd w = (Inl e, Some c, w6)
               \<and> calls w6 = calls w3 @ [Start c None, Wait c (Inl e)] \<and> containers w6 = containers w3
               \<and> set (console w3) \<subseteq> set (console w6)"
            using p Inr w2(1) a None by (auto simp add: try_block_def w0_def Let_def)
          then show thesis using wait_failed [OF ok c None Inl] wp w2 w3 logged by auto
        next
          case wr: (Inr wr)
          show thesis
          proof (cases "StatusCode wr = StatusNull")
            case True
            then have "\<exists>w6. try_block env i cmd w =
                   (Inl (new_Error env (lit ''Execution timed out.'')), Some c, w6)
               \<and> calls w6 = calls w3 @ [Start c None, Wait c (Inr wr)] \<and> containers w6 = containers w3
               \<and> set (console w3) \<subseteq> set (console w6)"
              using p Inr w2(1) a None wr by (auto simp add: try_block_def w0_def Let_def)
            then show thesis using timed_out [OF ok c None wr True] wp w2 w3 logged by auto
          next
            case False
            then have "\<exists>w6. try_block env i cmd w =
                   (Inr \<lparr>status = 200, json = [(''output'', trim out)]\<rparr>, Some c, w6)
               \<and> calls w6 = calls w3 @ [Start c None, Wait c (Inr wr)] \<and> containers w6 = containers w3
               \<and> set (console w3) \<subseteq> set (console w6)"
              using p Inr w2(1) a None wr by (auto simp add: try_block_def w0_def Let_def)
            then show thesis using finished [OF ok c None wr False] wp w2 w3 out logged by auto
          qed
        qed
      qed
    qed
  qed
qed

subsection \<open>The handler, path by path\<close>

lemma finally_block_None [simp]: "finally_block env None w = w"
  by (simp add: finally_block_def)

lemma finally_block_Some:
  "calls (finally_block env (Some c) w) = calls w @ [Remove c (remove env c)]"
  "containers (finally_block env (Some c) w) =
     (if remove env c = None then removeAll c (containers w) else containers w)"
  "console (finally_block env (Some c) w) = console w @
     [case remove env c of
        Some removeError \<Rightarrow> ConsoleError ''Error removing container:'' removeError
      | None \<Rightarrow> ConsoleLog ''Container ${container.id.substring(0,12)} removed.'']"
  by (simp_all add: finally_block_def container_remove_def Let_def split: option.splits)

lemma execute_rejected_missing:
  assumes "\<not> truthy (language body) \<or> \<not> truthy (code body)"
  shows "execute env body w =
     (Inr \<lparr>status = 400, json = [(''error'', lit ''Language and code are required.'')]\<rparr>, w)"
  using assms by (auto simp add: execute_def)

lemma execute_conversion_failed:
  assumes "truthy (language body)" "truthy (code body)"
    and "imageName_of (language body) = None"
  shows "execute env body w =
     (Inl (new_Error env (lit ''Cannot convert object to primitive value'')), w)"
  using assms by (simp add: execute_def)

lemma execute_rejected_unsupported:
  assumes "truthy (language body)" "truthy (code body)"
    and "imageName_of (language body) = Some i" "\<not> truthy_property i"
  shows "execute env body w =
     (Inr \<lparr>status = 400, json = [(''error'', lit ''Unsupported language.'')]\<rparr>, w)"
  using assms by (simp add: execute_def)

lemma execute_thrown:
  assumes "truthy (language body)" "truthy (code body)"
    and "imageName_of (language body) = Some i" "truthy_property i"
    and "try_block env i (cmd_of (language body) (code body)) w = (Inl e, container, w1)"
  shows "execute env body w =
     (Inr \<lparr>status = 500,
           json = [(''error'', or_else (message e) (lit ''An error occurred during execution.''))]\<rparr>,
      finally_block env container (console_error ''Error during code execution:'' e w1))"
  using assms by (simp add: execute_def catch_block_def)

lemma execute_sent:
  assumes "truthy (language body)" "truthy (code body)"
    and "imageName_of (language body) = Some i" "truthy_property i"
    and "try_block env i (cmd_of (language body) (code body)) w = (Inr res, container, w1)"
  shows "execute env body w = (Inr res, finally_block env container w1)"
  using assms by (simp add: execute_def)

text \<open>
  Each way through the handler, named by where it ends: what the request held and the
  runtime answered on the way, the response, the calls the request made, the containers
  listed afterwards and what the console holds.
\<close>

lemma execute_paths [case_names rejected_missing conversion_failed rejected_unsupported
    images_failed create_failed start_failed wait_failed timed_out finished]:
  obtains
    (rejected_missing)
      "\<not> truthy (language body) \<or> \<not> truthy (code body)"
      "execute env body w =
         (Inr \<lparr>status = 400, json = [(''error'', lit ''Language and code are required.'')]\<rparr>, w)"
      "request_calls env body w = []"
  | (conversion_failed)
      "truthy (language body)" "truthy (code body)"
      "imageName_of (language body) = None"
      "execute env body w =
         (Inl (new_Error env (lit ''Cannot convert object to primitive value'')), w)"
      "request_calls env body w = []"
  | (rejected_unsupported) i where
      "truthy (language body)" "truthy (code body)"
      "imageName_of (language body) = Some i" "\<not> truthy_property i"
      "execute env body w =
         (Inr \<lparr>status = 400, json = [(''error'', lit ''Unsupported language.'')]\<rparr>, w)"
      "request_calls env body w = []"
  | (images_failed) i e where
      "truthy (language body)" "truthy (code body)"
      "imageName_of (language body) = Some i" "truthy_property i"
      "fst (pullImage env i idle) = Inl e"
      "fst (execute env body w) =
         Inr \<lparr>status = 500,
              json = [(''error'', or_else (message e) (lit ''An error occurred during execution.''))]\<rparr>"
      "request_calls env body w = pullImage_calls env i"
      "containers (snd (execute env body w)) = containers w"
      "ConsoleError ''Error during code execution:'' e \<in> set (console (snd (execute env body w)))"
  | (create_failed) i e where
      "truthy (language body)" "truthy (code body)"
      "imageName_of (language body) = Some i" "truthy_property i"
      "fst (pullImage env i idle) = Inr ()"
      "createContainer env (request_options i body) = Inl e"
      "fst (execute env body w) =
         Inr \<lparr>status = 500,
              json = [(''error'', or_else (message e) (lit ''An error occurred during execution.''))]\<rparr>"
      "request_calls env body w =
         pullImage_calls env i @ [CreateContainer (request_options i body) (Inl e)]"
      "containers (snd (execute env body w)) = containers w"
      "ConsoleError ''Error during code execution:'' e \<in> set (console (snd (execute env body w)))"
  | (start_failed) i c e where
      "truthy (language body)" "truthy (code body)"
      "imageName_of (language body) = Some i" "truthy_property i"
      "fst (pullImage env i idle) = Inr ()"
      "createContainer env (request_options i body) = Inr c"
      "start env c = Some e"
      "fst (execute env body w) =
         Inr \<lparr>status = 500,
              json = [(''error'', or_else (message e) (lit ''An error occurred during execution.''))]\<rparr>"
      "request_calls env body w = pullImage_calls env i @
         [CreateContainer (request_options i body) (Inr c), Attach c (attach env c), Start c (Some e),
          Remove c (remove env c)]"
      "containers (snd (execute env body w)) =
         (if remove env c = None then removeAll c (containers w @ [c]) else containers w @ [c])"
      "ConsoleError ''Error during code execution:'' e \<in> set (console (snd (execute env body w)))"
      "last (console (snd (execute env body w))) =
         (case remove env c of
            Some removeError \<Rightarrow> ConsoleError ''Error removing container:'' removeError
          | None \<Rightarrow> ConsoleLog ''Container ${container.id.substring(0,12)} removed.'')"
      "\<forall>a. attach env c = Inl a
         \<longrightarrow> ConsoleError ''Error attaching to container:'' a
               \<in> set (console (snd (execute env body w)))"
  | (wait_failed) i c e where
      "truthy (language body)" "truthy (code body)"
      "imageName_of (language body) = Some i" "truthy_property i"
      "fst (pullImage env i idle) = Inr ()"
      "createContainer env (request_options i body) = Inr c"
      "start env c = None"
      "wait env c = Inl e"
      "fst (execute env body w) =
         Inr \<lparr>status = 500,
              json = [(''error'', or_else (message e) (lit ''An error occurred during execution.''))]\<rparr>"
      "request_calls env body w = pullImage_calls env i @
         [CreateContainer (request_options i body) (Inr c), Attach c (attach env c), Start c None,
          Wait c (Inl e), Remove c (remove env c)]"
      "containers (snd (execute env body w)) =
         (if remove env c = None then removeAll c (containers w @ [c]) else containers w @ [c])"
      "ConsoleError ''Error during code execution:'' e \<in> set (console (snd (execute env body w)))"
      "last (console (snd (execute env body w))) =
         (case remove env c of
            Some removeError \<Rightarrow> ConsoleError ''Error removing container:'' removeError
          | None \<Rightarrow> ConsoleLog ''Container ${container.id.substring(0,12)} removed.'')"
      "\<forall>a. attach env c = Inl a
         \<longrightarrow> ConsoleError ''Error attaching to container:'' a
               \<in> set (console (snd (execute env body w)))"
  | (timed_out) i c wr e where
      "truthy (language body)" "truthy (code body)"
      "imageName_of (language body) = Some i" "truthy_property i"
      "fst (pullImage env i idle) = Inr ()"
      "createContainer env (request_options i body) = Inr c"
      "start env c = None"
      "wait env c = Inr wr"
      "StatusCode wr = StatusNull"
      "e = new_Error env (lit ''Execution timed out.'')"
      "fst (execute env body w) =
         Inr \<lparr>status = 500,
              json = [(''error'', or_else (message e) (lit ''An error occurred during execution.''))]\<rparr>"
      "request_calls env body w = pullImage_calls env i @
         [CreateContainer (request_options i body) (Inr c), Attach c (attach env c), Start c None,
          Wait c (Inr wr), Remove c (remove env c)]"
      "containers (snd (execute env body w)) =
         (if remove env c = None then removeAll c (containers w @ [c]) else containers w @ [c])"
      "ConsoleError ''Error during code execution:'' e \<in> set (console (snd (execute env body w)))"
      "last (console (snd (execute env body w))) =
         (case remove env c of
            Some removeError \<Rightarrow> ConsoleError ''Error removing container:'' removeError
          | None \<Rightarrow> ConsoleLog ''Container ${container.id.substring(0,12)} removed.'')"
      "\<forall>a. attach env c = Inl a
         \<longrightarrow> ConsoleError ''Error attaching to container:'' a
               \<in> set (console (snd (execute env body w)))"
  | (finished) i c wr where
      "truthy (language body)" "truthy (code body)"
      "imageName_of (language body) = Some i" "truthy_property i"
      "fst (pullImage env i idle) = Inr ()"
      "createContainer env (request_options i body) = Inr c"
      "start env c = None"
      "wait env c = Inr wr"
      "StatusCode wr \<noteq> StatusNull"
      "fst (execute env body w) =
         Inr \<lparr>status = 200, json = [(''output'', trim (fst (container_attach env c idle)))]\<rparr>"
      "request_calls env body w = pullImage_calls env i @
         [CreateContainer (request_options i body) (Inr c), Attach c (attach env c), Start c None,
          Wait c (Inr wr), Remove c (remove env c)]"
      "containers (snd (execute env body w)) =
         (if remove env c = None then removeAll c (containers w @ [c]) else containers w @ [c])"
      "last (console (snd (execute env body w))) =
         (case remove env c of
            Some removeError \<Rightarrow> ConsoleError ''Error removing container:'' removeError
          | None \<Rightarrow> ConsoleLog ''Container ${container.id.substring(0,12)} removed.'')"
      "\<forall>a. attach env c = Inl a
         \<longrightarrow> ConsoleError ''Error attaching to container:'' a
               \<in> set (console (snd (execute env body w)))"
proof (cases "truthy (language body) \<and> truthy (code body)")
  case False
  then have m: "\<not> truthy (language body) \<or> \<not> truthy (code body)" by blast
  show thesis
    using rejected_missing [OF m] execute_rejected_missing [OF m, of env w]
    by (simp add: request_calls_def)
next
  case True
  then have l: "truthy (language body)" and s: "truthy (code body)" by simp_all
  show thesis
  proof (cases "imageName_of (language body)")
    case None
    show thesis
      using conversion_failed [OF l s None] execute_conversion_failed [OF l s None, of env w]
      by (simp add: request_calls_def)
  next
    case (Some i)
    show thesis
    proof (cases "truthy_property i")
      case False
      then show thesis
        using rejected_unsupported [OF l s Some] execute_rejected_unsupported [OF l s Some, of env w]
        by (simp add: request_calls_def)
    next
      case t: True
      note thrown = execute_thrown [OF l s Some t, of env w]
      note sent = execute_sent [OF l s Some t, of env w]
      note o = request_options_def [of i body]
      show thesis
      proof (cases rule: try_block_cases [of env i "cmd_of (language body) (code body)" w])
        case (images_failed e w1)
        note ex = thrown [OF images_failed(2)]
        show thesis
          by (rule that(4) [OF l s Some t images_failed(1)])
             (simp_all add: ex request_calls_def images_failed)
      next
        case (create_failed e w1)
        note ex = thrown [OF create_failed(3)]
        show thesis
          by (rule that(5) [OF l s Some t create_failed(1) create_failed(2) [folded o]])
             (simp_all add: ex request_calls_def create_failed o)
      next
        case (start_failed c e w1)
        note ex = thrown [OF start_failed(4)]
        show thesis
          by (rule that(6) [OF l s Some t start_failed(1) start_failed(2) [folded o]
                start_failed(3)])
             (simp_all add: ex request_calls_def start_failed o finally_block_Some)
      next
        case (wait_failed c e w1)
        note ex = thrown [OF wait_failed(5)]
        show thesis
          by (rule that(7) [OF l s Some t wait_failed(1) wait_failed(2) [folded o]
                wait_failed(3) wait_failed(4)])
             (simp_all add: ex request_calls_def wait_failed o finally_block_Some)
      next
        case (timed_out c wr w1)
        note ex = thrown [OF timed_out(6)]
        show thesis
          by (rule that(8) [OF l s Some t timed_out(1) timed_out(2) [folded o] timed_out(3)
                timed_out(4) timed_out(5) refl])
             (simp_all add: ex request_calls_def timed_out o finally_block_Some)
      next
        case (finished c wr w1)
        note ex = sent [OF finished(6)]
        show thesis
          by (rule that(9) [OF l s Some t finished(1) finished(2) [folded o] finished(3)
                finished(4) finished(5)])
             (simp_all add: ex request_calls_def finished o finally_block_Some)
      qed
    qed
  qed
qed

subsection \<open>What pullImage calls\<close>

lemma pullImage_calls_only [simp]:
  "CreateContainer opts rc \<notin> set (pullImage_calls env i)"
  "Attach c ra \<notin> set (pullImage_calls env i)"
  "Start c rs \<notin> set (pullImage_calls env i)"
  "Wait c rw \<notin> set (pullImage_calls env i)"
  "Remove c rr \<notin> set (pullImage_calls env i)"
  by (simp_all add: pullImage_calls_unfold split: sum.splits)

lemma pullImage_calls_no_create [simp]: "filter is_createContainer (pullImage_calls env i) = []"
  by (simp add: pullImage_calls_unfold split: sum.splits)

lemma pullImage_outcome:
  "fst (pullImage env i w) =
     (case listImages env i of
        Inl e \<Rightarrow> Inl e
      | Inr imgs \<Rightarrow>
          if imgs = [] then
            (case pull env i of
               Inl e \<Rightarrow> Inl e
             | Inr s \<Rightarrow> (case followProgress env s of Some e \<Rightarrow> Inl e | None \<Rightarrow> Inr ()))
          else Inr ())"
  by (simp add: pullImage_def Let_def split: sum.splits option.splits)

lemma pullImage_calls_failure:
  assumes "ListImages j (Inl e) \<in> set (pullImage_calls env i)
         \<or> Pull j (Inl e) \<in> set (pullImage_calls env i)
         \<or> FollowProgress s (Some e) \<in> set (pullImage_calls env i)"
  shows "fst (pullImage env i idle) = Inl e"
  using assms
  by (auto simp add: pullImage_calls_unfold pullImage_outcome
      split: sum.splits if_splits option.splits) metis+

lemma pullImage_calls_failureD:
  "ListImages j (Inl e) \<in> set (pullImage_calls env i) \<Longrightarrow> fst (pullImage env i idle) = Inl e"
  "Pull j (Inl e) \<in> set (pullImage_calls env i) \<Longrightarrow> fst (pullImage env i idle) = Inl e"
  "FollowProgress s (Some e) \<in> set (pullImage_calls env i) \<Longrightarrow> fst (pullImage env i idle) = Inl e"
  using pullImage_calls_failure [of _ e env i] by blast+

subsection \<open>trim\<close>

lemma trim_decompose:
  "s = takeWhile isWhiteSpace s @ trim s
         @ rev (takeWhile isWhiteSpace (rev (dropWhile isWhiteSpace s)))"
proof -
  let ?d = "dropWhile isWhiteSpace s"
  let ?t = "takeWhile isWhiteSpace (rev ?d)"
  let ?r = "dropWhile isWhiteSpace (rev ?d)"
  have "rev (?t @ ?r) = rev ?r @ rev ?t" by (rule rev_append)
  moreover have "?t @ ?r = rev ?d" by (rule takeWhile_dropWhile_id)
  ultimately have "rev (rev ?d) = rev ?r @ rev ?t" by (simp only:)
  then have "?d = trim s @ rev ?t" by (simp only: rev_rev_ident trim_def)
  moreover have "s = takeWhile isWhiteSpace s @ ?d" by simp
  ultimately show ?thesis by (simp only:)
qed

lemma trim_ends:
  assumes "trim s \<noteq> []"
  shows "\<not> isWhiteSpace (hd (trim s))" and "\<not> isWhiteSpace (last (trim s))"
proof -
  let ?d = "dropWhile isWhiteSpace s"
  let ?t = "takeWhile isWhiteSpace (rev ?d)"
  let ?r = "dropWhile isWhiteSpace (rev ?d)"
  have t: "trim s = rev ?r" by (simp add: trim_def)
  have r: "?r \<noteq> []" using assms t by simp
  then have "\<not> isWhiteSpace (hd ?r)" by (rule hd_dropWhile)
  then show "\<not> isWhiteSpace (last (trim s))"
    using r t by (simp add: last_rev)
  have d: "?d \<noteq> []"
  proof
    assume "?d = []"
    then have "?r = []" by (simp only: rev.simps dropWhile.simps)
    with r show False by blast
  qed
  then have nd: "\<not> isWhiteSpace (hd ?d)" by (rule hd_dropWhile)
  have "rev (?t @ ?r) = rev ?r @ rev ?t" by (rule rev_append)
  moreover have "?t @ ?r = rev ?d" by (rule takeWhile_dropWhile_id)
  ultimately have "rev (rev ?d) = rev ?r @ rev ?t" by (simp only:)
  then have "?d = trim s @ rev ?t" by (simp only: rev_rev_ident t)
  then have "hd ?d = hd (trim s)" using assms by (metis hd_append2)
  then show "\<not> isWhiteSpace (hd (trim s))" using nd by simp
qed

subsection \<open>The removal does not reach the response\<close>

lemma pullImage_remove: "pullImage (env\<lparr>remove := rm\<rparr>) i w = pullImage env i w"
  by (simp add: pullImage_def Let_def cong: sum.case_cong option.case_cong if_cong)

lemma docker_createContainer_remove:
  "docker_createContainer (env\<lparr>remove := rm\<rparr>) opts w = docker_createContainer env opts w"
  by (simp add: docker_createContainer_def)

lemma container_attach_remove:
  "container_attach (env\<lparr>remove := rm\<rparr>) c w = container_attach env c w"
  by (simp add: container_attach_def)

lemma try_block_remove: "try_block (env\<lparr>remove := rm\<rparr>) i cmd w = try_block env i cmd w"
  by (simp add: try_block_def pullImage_remove docker_createContainer_remove
      container_attach_remove new_Error_def Let_def
      cong: sum.case_cong option.case_cong prod.case_cong if_cong)

lemma execute_remove:
  "fst (execute (env\<lparr>remove := rm\<rparr>) body w) = fst (execute env body w)"
  by (simp add: execute_def catch_block_def try_block_remove new_Error_def Let_def
      split: prod.splits sum.splits option.splits)

lemma falsy_values:
  "\<not> truthy v \<longleftrightarrow> v \<in> {JUndefined, JNull, JBoolean False, JNumber 0, JString []}"
  by (cases v) auto

lemma or_else_cases:
  "or_else m fallback =
     (case m of None \<Rightarrow> fallback | Some s \<Rightarrow> if s = [] then fallback else s)"
  by (simp add: or_else_def split: option.splits)

subsection \<open>Evaluating the examples\<close>

text \<open>The definitions a concrete run unfolds to.\<close>

lemmas run_defs = execute_def try_block_def pullImage_def console_log_def console_error_def called_def
  docker_createContainer_def container_attach_def finally_block_def container_remove_def catch_block_def
  request_calls_def Let_def imageName_of_def toPropertyKey_def cmd_of_def getProperty_def
  languageImageMap_def container_options_def request_options_def python_request_def python_container_def daemon_ok_def idle_def lit_def
  trim_def isWhiteSpace_def new_Error_def or_else_def daemon_error_def silent_error_def
  array_request_def

text \<open>
  Two requests whose \<^verbatim>\<open>language\<close> is not a string. The array \<^verbatim>\<open>["python"]\<close> passes
  both guards and finds the image of \<^verbatim>\<open>python\<close>. An object with an own property
  \<^verbatim>\<open>toString\<close> makes line 26 throw: the handler ends without a response and without
  a call to the runtime.
\<close>

lemma array_language_image:
  "imageName_of (language array_request) = Some (Own (lit ''python:3.9-slim''))"
  by (simp add: imageName_of_def toPropertyKey_def getProperty_def languageImageMap_def
      array_request_def lit_def)

lemma object_language_uncaught:
  "execute env \<lparr>language = JObject [(lit ''toString'', JNumber 1)], code = JString (lit ''1'')\<rparr> w
     = (Inl (new_Error env (lit ''Cannot convert object to primitive value'')), w)"
  by (simp add: execute_def imageName_of_def toPropertyKey_def lit_def)


section \<open>The claims\<close>

text \<open>
  C1. When the \<^verbatim>\<open>wait\<close> of a request resolved with a status code that is not
  \<^verbatim>\<open>null\<close>, the response is 200 and its body is the single field \<^verbatim>\<open>output\<close>,
  holding the text buffered from the attached stream (the chunks in order; nothing when
  no stream was attached), trimmed: what was cut off at both ends is white space only,
  and what is left neither starts nor ends with white space. This holds for every
  request, so for the supported languages in particular.
\<close>

theorem C1_finished_run_returns_trimmed_output:
  assumes "Wait c (Inr wr) \<in> set (request_calls env body w)"
    and "StatusCode wr \<noteq> StatusNull"
  shows "\<exists>buffered pre suf.
           buffered = (case attach env c of Inl err \<Rightarrow> [] | Inr chunks \<Rightarrow> concat chunks)
         \<and> fst (execute env body w) = Inr \<lparr>status = 200, json = [(''output'', trim buffered)]\<rparr>
         \<and> buffered = pre @ trim buffered @ suf
         \<and> list_all isWhiteSpace pre \<and> list_all isWhiteSpace suf
         \<and> (trim buffered \<noteq> []
              \<longrightarrow> \<not> isWhiteSpace (hd (trim buffered)) \<and> \<not> isWhiteSpace (last (trim buffered)))"
proof -
  let ?b = "case attach env c of Inl err \<Rightarrow> [] | Inr chunks \<Rightarrow> concat chunks"
  have resp: "fst (execute env body w) = Inr \<lparr>status = 200, json = [(''output'', trim ?b)]\<rparr>"
  proof (cases rule: execute_paths [where env = env and body = body and w = w])
    case (finished i c' wr')
    then have "c' = c" using assms(1) by simp
    then show ?thesis using finished(10) by (simp add: container_attach_fst)
  qed (use assms in auto)
  have "?b = takeWhile isWhiteSpace ?b @ trim ?b
          @ rev (takeWhile isWhiteSpace (rev (dropWhile isWhiteSpace ?b)))"
    by (rule trim_decompose)
  moreover have "list_all isWhiteSpace (takeWhile isWhiteSpace ?b)"
    by (simp add: list_all_iff) (meson set_takeWhileD)
  moreover have "list_all isWhiteSpace (rev (takeWhile isWhiteSpace (rev (dropWhile isWhiteSpace ?b))))"
    by (simp add: list_all_iff) (meson set_takeWhileD)
  ultimately show ?thesis using resp trim_ends [of ?b] by blast
qed

theorem C1_witness:
  "Wait python_container (Inr \<lparr>StatusCode = StatusNumber 0\<rparr>)
     \<in> set (request_calls daemon_ok python_request idle)
   \<and> fst (execute daemon_ok python_request idle)
     = Inr \<lparr>status = 200, json = [(''output'', lit ''2'')]\<rparr>"
proof -
  have h: "Wait python_container (Inr \<lparr>StatusCode = StatusNumber 0\<rparr>)
     \<in> set (request_calls daemon_ok python_request idle)"
    by (simp add: run_defs)
  have n: "StatusCode \<lparr>StatusCode = StatusNumber 0\<rparr> \<noteq> StatusNull" by simp
  have t: "trim (case attach daemon_ok python_container of Inl err \<Rightarrow> [] | Inr chunks \<Rightarrow> concat chunks)
      = lit ''2''"
    by (simp add: daemon_ok_def trim_def isWhiteSpace_def lit_def)
  show ?thesis using h C1_finished_run_returns_trimmed_output [OF h n] t by auto
qed



text \<open>
  C3. The claim says that every language outside \<open>{python, javascript}\<close> is answered
  with 400. The lookup \<^verbatim>\<open>languageImageMap[language]\<close> also finds the members the
  object literal inherits from \<^verbatim>\<open>Object.prototype\<close>, and they are truthy: for the
  language \<^verbatim>\<open>constructor\<close> the check \<^verbatim>\<open>!imageName\<close> does not fire, whatever the
  runtime answers the response is not a 400, and the first thing the request does is to
  ask the runtime for the images of a reference that is not a string.
\<close>

theorem C3_inherited_property_is_not_rejected:
  "(\<exists>res. fst (execute env
        \<lparr>language = JString (lit ''constructor''), code = JString (lit ''1'')\<rparr> w) = Inr res
      \<and> status res \<noteq> 400)
   \<and> hd (request_calls env
      \<lparr>language = JString (lit ''constructor''), code = JString (lit ''1'')\<rparr> w)
     = ListImages (Inherited (lit ''constructor''))
         (listImages env (Inherited (lit ''constructor'')))"
proof -
  let ?body = "\<lparr>language = JString (lit ''constructor''), code = JString (lit ''1'')\<rparr>"
  have i: "imageName_of (language ?body) = Some (Inherited (lit ''constructor''))"
    by (simp add: imageName_of_def toPropertyKey_def getProperty_def languageImageMap_def
        Object_prototype_def lit_def)
  have t: "truthy (language ?body)" "truthy (code ?body)"
    by (simp_all add: lit_def)
  have hd_pull: "hd (pullImage_calls env j @ rest) = ListImages j (listImages env j)" for j rest
    by (simp add: pullImage_calls_unfold split: sum.splits)
  show ?thesis
  proof (cases rule: execute_paths [where env = env and body = ?body and w = w])
    case rejected_missing
    then show ?thesis using t by simp
  next
    case conversion_failed
    then show ?thesis using i by simp
  next
    case (rejected_unsupported j)
    then show ?thesis using i by simp
  next
    case (images_failed j e)
    then show ?thesis using hd_pull [of "Inherited (lit ''constructor'')" "[]"] i by simp
  next
    case (create_failed j e)
    then show ?thesis using hd_pull i by simp
  next
    case (start_failed j c e)
    then show ?thesis using hd_pull i by simp
  next
    case (wait_failed j c e)
    then show ?thesis using hd_pull i by simp
  next
    case (timed_out j c wr e)
    then show ?thesis using hd_pull i by simp
  next
    case (finished j c wr)
    then show ?thesis using hd_pull i by simp
  qed
qed

theorem C3_witness:
  "fst (execute daemon_list_fails
      \<lparr>language = JString (lit ''constructor''), code = JString (lit ''1'')\<rparr> idle)
     = Inr \<lparr>status = 500, json = [(''error'', lit ''(HTTP code 500) server error'')]\<rparr>
   \<and> request_calls daemon_list_fails
      \<lparr>language = JString (lit ''constructor''), code = JString (lit ''1'')\<rparr> idle
     = [ListImages (Inherited (lit ''constructor'')) (Inl daemon_error)]"
proof -
  have "\<exists>res. fst (execute daemon_list_fails
      \<lparr>language = JString (lit ''constructor''), code = JString (lit ''1'')\<rparr> idle) = Inr res
      \<and> status res \<noteq> 400"
    using C3_inherited_property_is_not_rejected [of daemon_list_fails idle] by simp
  then show ?thesis
    by (simp add: run_defs daemon_list_fails_def Object_prototype_def)
qed

text \<open>
  C4, as stated, counts an absent (\<^verbatim>\<open>undefined\<close>) \<^verbatim>\<open>StatusCode\<close> as a timeout. The
  test of line 82 is \<^verbatim>\<open>=== null\<close>, which \<^verbatim>\<open>undefined\<close> does not satisfy: with a wait
  result that has no \<^verbatim>\<open>StatusCode\<close> the run counts as finished and the response is 200.
\<close>

theorem C4_counterexample:
  "Wait python_container (Inr \<lparr>StatusCode = StatusUndefined\<rparr>)
     \<in> set (request_calls daemon_status_absent python_request idle)
   \<and> fst (execute daemon_status_absent python_request idle)
     = Inr \<lparr>status = 200, json = [(''output'', lit ''2'')]\<rparr>"
  by (simp add: run_defs daemon_status_absent_def)

text \<open>
  C4, amended. When the \<^verbatim>\<open>wait\<close> of a request resolved with a \<^verbatim>\<open>StatusCode\<close> that
  is \<^verbatim>\<open>null\<close>, the response is 500 with the message \<^verbatim>\<open>Execution timed out.\<close>; with
  any other \<^verbatim>\<open>StatusCode\<close>, an absent one included, the response is 200.
\<close>

theorem C4_null_status_is_the_timeout:
  assumes "Wait c (Inr wr) \<in> set (request_calls env body w)"
  shows "(StatusCode wr = StatusNull
            \<longrightarrow> fst (execute env body w)
                = Inr \<lparr>status = 500, json = [(''error'', lit ''Execution timed out.'')]\<rparr>)
       \<and> (StatusCode wr \<noteq> StatusNull
            \<longrightarrow> (\<exists>res. fst (execute env body w) = Inr res \<and> status res = 200))"
proof (cases rule: execute_paths [where env = env and body = body and w = w])
  case (timed_out i c' wr' e)
  then have "wr' = wr" using assms by simp
  moreover have "or_else (message e) (lit ''An error occurred during execution.'')
      = lit ''Execution timed out.''"
    using timed_out(10) by (simp add: new_Error_def or_else_def lit_def)
  ultimately show ?thesis using timed_out by simp
next
  case (finished i c' wr')
  then have "wr' = wr" using assms by simp
  then show ?thesis using finished by simp
qed (use assms in auto)

theorem C4_witness:
  "Wait python_container (Inr \<lparr>StatusCode = StatusNull\<rparr>)
     \<in> set (request_calls daemon_status_null python_request idle)
   \<and> fst (execute daemon_status_null python_request idle)
     = Inr \<lparr>status = 500, json = [(''error'', lit ''Execution timed out.'')]\<rparr>"
proof -
  have h: "Wait python_container (Inr \<lparr>StatusCode = StatusNull\<rparr>)
     \<in> set (request_calls daemon_status_null python_request idle)"
    by (simp add: run_defs daemon_status_null_def)
  show ?thesis using h C4_null_status_is_the_timeout [OF h] by simp
qed

text \<open>
  C5, as stated, lists the attach among the failures answered with 500. The handler
  gives \<^verbatim>\<open>container.attach\<close> a callback that logs the error and returns, so nothing is
  thrown: when only the attach fails, the run goes on without a stream and the response
  is 200 with an empty output.
\<close>

theorem C5_counterexample:
  "Attach python_container (Inl daemon_error)
     \<in> set (request_calls daemon_attach_fails python_request idle)
   \<and> fst (execute daemon_attach_fails python_request idle)
     = Inr \<lparr>status = 200, json = [(''output'', [])]\<rparr>"
  by (simp add: run_defs daemon_attach_fails_def)

text \<open>
  C5, amended. When the image listing, the pull, the pull's progress, the container
  creation, the start or the wait of a request fails with an error \<open>e\<close>, or the wait
  resolves with a \<^verbatim>\<open>null\<close> status (then \<open>e\<close> is the handler's own timeout error),
  the response is 500 and its body is the single field \<^verbatim>\<open>error\<close>, holding the message
  of \<open>e\<close>, or the fixed text \<^verbatim>\<open>An error occurred during execution.\<close> when \<open>e\<close> has
  no message or an empty one. The stack trace of \<open>e\<close> is no part of the body; the error
  object goes to \<^verbatim>\<open>console.error\<close>. A failed attach is not such a failure: its error
  goes to \<^verbatim>\<open>console.error\<close>, the container is started all the same, and when start
  and wait then succeed with a status that is not \<^verbatim>\<open>null\<close> the response is 200 with an
  empty output.
\<close>

theorem C5_failure_sends_500_with_message_only:
  "((ListImages i (Inl e) \<in> set (request_calls env body w)
       \<or> Pull i (Inl e) \<in> set (request_calls env body w)
       \<or> FollowProgress s (Some e) \<in> set (request_calls env body w)
       \<or> CreateContainer opts (Inl e) \<in> set (request_calls env body w)
       \<or> Start c (Some e) \<in> set (request_calls env body w)
       \<or> Wait c (Inl e) \<in> set (request_calls env body w)
       \<or> (\<exists>wr. Wait c (Inr wr) \<in> set (request_calls env body w)
              \<and> StatusCode wr = StatusNull
              \<and> e = \<lparr>message = Some (lit ''Execution timed out.''), stack = captureStack env\<rparr>))
     \<longrightarrow> fst (execute env body w) =
           Inr \<lparr>status = 500,
                json = [(''error'',
                  case message e of
                    None \<Rightarrow> lit ''An error occurred during execution.''
                  | Some m \<Rightarrow> if m = [] then lit ''An error occurred during execution.'' else m)]\<rparr>
         \<and> ConsoleError ''Error during code execution:'' e
              \<in> set (console (snd (execute env body w))))
   \<and> (Attach c' (Inl a) \<in> set (request_calls env body w)
     \<longrightarrow> ConsoleError ''Error attaching to container:'' a
              \<in> set (console (snd (execute env body w)))
         \<and> Start c' (start env c') \<in> set (request_calls env body w)
         \<and> (\<forall>wr. start env c' = None \<and> wait env c' = Inr wr \<and> StatusCode wr \<noteq> StatusNull
               \<longrightarrow> fst (execute env body w) = Inr \<lparr>status = 200, json = [(''output'', [])]\<rparr>))"
proof -
  let ?fails = "ListImages i (Inl e) \<in> set (request_calls env body w)
       \<or> Pull i (Inl e) \<in> set (request_calls env body w)
       \<or> FollowProgress s (Some e) \<in> set (request_calls env body w)
       \<or> CreateContainer opts (Inl e) \<in> set (request_calls env body w)
       \<or> Start c (Some e) \<in> set (request_calls env body w)
       \<or> Wait c (Inl e) \<in> set (request_calls env body w)
       \<or> (\<exists>wr. Wait c (Inr wr) \<in> set (request_calls env body w)
              \<and> StatusCode wr = StatusNull
              \<and> e = \<lparr>message = Some (lit ''Execution timed out.''), stack = captureStack env\<rparr>)"
  let ?sent = "fst (execute env body w) =
           Inr \<lparr>status = 500,
                json = [(''error'', or_else (message e) (lit ''An error occurred during execution.''))]\<rparr>
         \<and> ConsoleError ''Error during code execution:'' e
              \<in> set (console (snd (execute env body w)))"
  have failure: "?sent" if f: "?fails"
  proof (cases rule: execute_paths [where env = env and body = body and w = w])
    case rejected_missing
    then show ?thesis using f by simp
  next
    case conversion_failed
    then show ?thesis using f by simp
  next
    case (rejected_unsupported j)
    then show ?thesis using f by simp
  next
    case (images_failed j e')
    then have "e' = e" using f by (auto dest: pullImage_calls_failureD)
    then show ?thesis using images_failed by simp
  next
    case (create_failed j e')
    then have "e' = e" using f by (auto dest: pullImage_calls_failureD)
    then show ?thesis using create_failed by simp
  next
    case (start_failed j c'' e')
    then have "e' = e" using f by (auto dest: pullImage_calls_failureD)
    then show ?thesis using start_failed by simp
  next
    case (wait_failed j c'' e')
    then have "e' = e" using f by (auto dest: pullImage_calls_failureD)
    then show ?thesis using wait_failed by simp
  next
    case (timed_out j c'' wr' e')
    then have "e' = e" using f by (auto simp add: new_Error_def dest: pullImage_calls_failureD)
    then show ?thesis using timed_out by simp
  next
    case (finished j c'' wr')
    then have False using f by (auto dest: pullImage_calls_failureD)
    then show ?thesis ..
  qed
  have attached: "ConsoleError ''Error attaching to container:'' a
              \<in> set (console (snd (execute env body w)))
         \<and> Start c' (start env c') \<in> set (request_calls env body w)
         \<and> (\<forall>wr. start env c' = None \<and> wait env c' = Inr wr \<and> StatusCode wr \<noteq> StatusNull
               \<longrightarrow> fst (execute env body w) = Inr \<lparr>status = 200, json = [(''output'', [])]\<rparr>)"
    if h: "Attach c' (Inl a) \<in> set (request_calls env body w)"
  proof (cases rule: execute_paths [where env = env and body = body and w = w])
    case (start_failed j c'' e')
    then have "c'' = c' \<and> attach env c' = Inl a" using h by auto
    then show ?thesis using start_failed by auto
  next
    case (wait_failed j c'' e')
    then have "c'' = c' \<and> attach env c' = Inl a" using h by auto
    then show ?thesis using wait_failed by auto
  next
    case (timed_out j c'' wr' e')
    then have "c'' = c' \<and> attach env c' = Inl a" using h by auto
    then show ?thesis using timed_out by auto
  next
    case (finished j c'' wr')
    then have "c'' = c' \<and> attach env c' = Inl a" using h by auto
    then show ?thesis using finished by (auto simp add: container_attach_fst trim_def)
  qed (use h in auto)
  show ?thesis using failure attached by (simp add: or_else_cases)
qed

theorem C5_witness:
  "CreateContainer (request_options (Own (lit ''python:3.9-slim'')) python_request)
      (Inl daemon_error)
     \<in> set (request_calls daemon_create_fails python_request idle)
   \<and> fst (execute daemon_create_fails python_request idle)
     = Inr \<lparr>status = 500, json = [(''error'', lit ''(HTTP code 500) server error'')]\<rparr>
   \<and> ConsoleError ''Error during code execution:'' daemon_error
     \<in> set (console (snd (execute daemon_create_fails python_request idle)))
   \<and> Start python_container (Some silent_error)
     \<in> set (request_calls daemon_start_fails python_request idle)
   \<and> fst (execute daemon_start_fails python_request idle)
     = Inr \<lparr>status = 500, json = [(''error'', lit ''An error occurred during execution.'')]\<rparr>
   \<and> Attach python_container (Inl daemon_error)
     \<in> set (request_calls daemon_attach_fails python_request idle)
   \<and> ConsoleError ''Error attaching to container:'' daemon_error
     \<in> set (console (snd (execute daemon_attach_fails python_request idle)))
   \<and> Start python_container None
     \<in> set (request_calls daemon_attach_fails python_request idle)"
proof -
  let ?opts = "request_options (Own (lit ''python:3.9-slim'')) python_request"
  have h1: "CreateContainer ?opts (Inl daemon_error)
     \<in> set (request_calls daemon_create_fails python_request idle)"
    by (simp add: run_defs daemon_create_fails_def)
  have m1: "message daemon_error = Some (lit ''(HTTP code 500) server error'')"
    "lit ''(HTTP code 500) server error'' \<noteq> []"
    by (simp_all add: daemon_error_def lit_def)
  have h2: "Start python_container (Some silent_error)
     \<in> set (request_calls daemon_start_fails python_request idle)"
    by (simp add: run_defs daemon_start_fails_def)
  have m2: "message silent_error = None"
    by (simp add: silent_error_def)
  have h3: "Attach python_container (Inl daemon_error)
     \<in> set (request_calls daemon_attach_fails python_request idle)"
    by (simp add: run_defs daemon_attach_fails_def)
  have s3: "start daemon_attach_fails python_container = None"
    by (simp add: daemon_attach_fails_def daemon_ok_def)
  note t1 = C5_failure_sends_500_with_message_only
    [of _ daemon_error daemon_create_fails python_request idle _ ?opts, THEN conjunct1]
  note t2 = C5_failure_sends_500_with_message_only
    [of _ silent_error daemon_start_fails python_request idle _ _ python_container,
     THEN conjunct1]
  note t3 = C5_failure_sends_500_with_message_only
    [of _ _ daemon_attach_fails python_request idle _ _ _ python_container daemon_error,
     THEN conjunct2]
  show ?thesis
    using h1 h2 h3 m1 m2 s3 t1 t2 t3 by simp
qed

text \<open>
  C6. When a request created a container, the last call of the request is the removal
  of that container, whichever way the run ended; the response does not depend on what
  the removal answers (it is the same for every behaviour \<open>rm\<close> of \<^verbatim>\<open>remove\<close>); and a
  failed removal ends as a \<^verbatim>\<open>console.error\<close> entry.
\<close>

theorem C6_removal_attempted_and_response_kept:
  assumes "CreateContainer opts (Inr c) \<in> set (request_calls env body w)"
  shows "last (request_calls env body w) = Remove c (remove env c)
       \<and> fst (execute (env\<lparr>remove := rm\<rparr>) body w) = fst (execute env body w)
       \<and> (\<forall>removeError. remove env c = Some removeError
            \<longrightarrow> last (console (snd (execute env body w)))
                = ConsoleError ''Error removing container:'' removeError)"
proof -
  have "last (request_calls env body w) = Remove c (remove env c)
      \<and> (\<forall>removeError. remove env c = Some removeError
            \<longrightarrow> last (console (snd (execute env body w)))
                = ConsoleError ''Error removing container:'' removeError)"
    by (cases rule: execute_paths [where env = env and body = body and w = w])
       (use assms in auto)
  then show ?thesis by (simp add: execute_remove)
qed

theorem C6_witness:
  "CreateContainer (request_options (Own (lit ''python:3.9-slim'')) python_request)
      (Inr python_container)
     \<in> set (request_calls daemon_remove_fails python_request idle)
   \<and> last (request_calls daemon_remove_fails python_request idle)
     = Remove python_container (Some daemon_error)
   \<and> fst (execute daemon_remove_fails python_request idle)
     = fst (execute daemon_ok python_request idle)
   \<and> last (console (snd (execute daemon_remove_fails python_request idle)))
     = ConsoleError ''Error removing container:'' daemon_error"
proof -
  let ?opts = "request_options (Own (lit ''python:3.9-slim'')) python_request"
  have h: "CreateContainer ?opts (Inr python_container)
     \<in> set (request_calls daemon_remove_fails python_request idle)"
    by (simp add: run_defs daemon_remove_fails_def)
  have r: "remove daemon_remove_fails python_container = Some daemon_error"
    by (simp add: daemon_remove_fails_def)
  have k: "daemon_remove_fails\<lparr>remove := (\<lambda>c. None)\<rparr> = daemon_ok"
    by (simp add: daemon_remove_fails_def daemon_ok_def)
  show ?thesis
    using h r k
      C6_removal_attempted_and_response_kept [OF h, of "\<lambda>c. None"]
    by simp
qed

text \<open>
  C7, as stated, promises that no container of the request is left in the runtime's
  container list. The handler attempts the removal once and only logs its failure:
  when the removal fails, the container it created is still listed after the request.
\<close>

theorem C7_counterexample:
  "CreateContainer (request_options (Own (lit ''python:3.9-slim'')) python_request)
      (Inr python_container)
     \<in> set (request_calls daemon_remove_fails python_request idle)
   \<and> python_container \<in> set (containers (snd (execute daemon_remove_fails python_request idle)))"
  by (simp add: run_defs daemon_remove_fails_def)

text \<open>
  C7, amended. A request calls \<^verbatim>\<open>docker.createContainer\<close> at most once. When the
  removal of the container it created succeeds, that container is not in the runtime's
  container list after the request. When the removal fails, the container stays in the
  list (the list is the one before the request with the container added), the failure
  is the last entry of the console, and the response is the one the request would have
  got with a removal that succeeds.
\<close>

theorem C7_one_container_gone_when_removal_succeeds:
  "length (filter is_createContainer (request_calls env body w)) \<le> 1
   \<and> (\<forall>opts c. CreateContainer opts (Inr c) \<in> set (request_calls env body w)
                 \<and> remove env c = None
        \<longrightarrow> c \<notin> set (containers (snd (execute env body w))))
   \<and> (\<forall>opts c removeError.
          CreateContainer opts (Inr c) \<in> set (request_calls env body w)
          \<and> remove env c = Some removeError
        \<longrightarrow> c \<in> set (containers (snd (execute env body w)))
          \<and> containers (snd (execute env body w)) = containers w @ [c]
          \<and> last (console (snd (execute env body w)))
              = ConsoleError ''Error removing container:'' removeError
          \<and> fst (execute env body w) = fst (execute (env\<lparr>remove := (\<lambda>c. None)\<rparr>) body w))"
proof -
  have "length (filter is_createContainer (request_calls env body w)) \<le> 1
   \<and> (\<forall>opts c. CreateContainer opts (Inr c) \<in> set (request_calls env body w)
                 \<and> remove env c = None
        \<longrightarrow> c \<notin> set (containers (snd (execute env body w))))
   \<and> (\<forall>opts c removeError.
          CreateContainer opts (Inr c) \<in> set (request_calls env body w)
          \<and> remove env c = Some removeError
        \<longrightarrow> c \<in> set (containers (snd (execute env body w)))
          \<and> containers (snd (execute env body w)) = containers w @ [c]
          \<and> last (console (snd (execute env body w)))
              = ConsoleError ''Error removing container:'' removeError)"
    by (cases rule: execute_paths [where env = env and body = body and w = w]) auto
  moreover have "fst (execute env body w) = fst (execute (env\<lparr>remove := (\<lambda>c. None)\<rparr>) body w)"
    by (simp add: execute_remove)
  ultimately show ?thesis by blast
qed

theorem C7_witness:
  "CreateContainer (request_options (Own (lit ''python:3.9-slim'')) python_request)
      (Inr python_container)
     \<in> set (request_calls daemon_ok python_request idle)
   \<and> remove daemon_ok python_container = None
   \<and> python_container \<notin> set (containers (snd (execute daemon_ok python_request idle)))
   \<and> length (filter is_createContainer (request_calls daemon_ok python_request idle)) = 1
   \<and> CreateContainer (request_options (Own (lit ''python:3.9-slim'')) python_request)
      (Inr python_container)
     \<in> set (request_calls daemon_remove_fails python_request idle)
   \<and> remove daemon_remove_fails python_container = Some daemon_error
   \<and> containers (snd (execute daemon_remove_fails python_request idle)) = [python_container]
   \<and> last (console (snd (execute daemon_remove_fails python_request idle)))
     = ConsoleError ''Error removing container:'' daemon_error"
proof -
  let ?opts = "request_options (Own (lit ''python:3.9-slim'')) python_request"
  have h: "CreateContainer ?opts (Inr python_container)
     \<in> set (request_calls daemon_ok python_request idle)"
    by (simp add: run_defs)
  have r: "remove daemon_ok python_container = None"
    by (simp add: daemon_ok_def)
  have n: "length (filter is_createContainer (request_calls daemon_ok python_request idle)) = 1"
    by (simp add: run_defs)
  have h': "CreateContainer ?opts (Inr python_container)
     \<in> set (request_calls daemon_remove_fails python_request idle)"
    by (simp add: run_defs daemon_remove_fails_def)
  have r': "remove daemon_remove_fails python_container = Some daemon_error"
    by (simp add: daemon_remove_fails_def)
  have i: "containers idle = []" by (simp add: idle_def)
  note t = C7_one_container_gone_when_removal_succeeds [of daemon_ok python_request idle]
  note t' = C7_one_container_gone_when_removal_succeeds
    [of daemon_remove_fails python_request idle]
  have a: "python_container \<notin> set (containers (snd (execute daemon_ok python_request idle)))"
    using t h r by blast
  have b: "containers (snd (execute daemon_remove_fails python_request idle))
        = containers idle @ [python_container]
      \<and> last (console (snd (execute daemon_remove_fails python_request idle)))
        = ConsoleError ''Error removing container:'' daemon_error"
    using t' h' r' by blast
  show ?thesis using h r n h' r' a b i by simp
qed

text \<open>
  C8. \<^verbatim>\<open>pullImage\<close> adds its calls to those made before; it pulls exactly when the
  listing of the local images for the reference resolved with an empty list; a pull that
  resolved is followed to its completion signal; it returns normally exactly when the
  image was listed, or was pulled and the pull completed without an error; and a request
  that calls \<^verbatim>\<open>docker.createContainer\<close> has before that made the calls of a
  \<^verbatim>\<open>pullImage\<close> for the same image that returned normally.
\<close>

theorem C8_image_ensured_before_create:
  "calls (snd (pullImage env i w)) = calls w @ pullImage_calls env i
   \<and> ((\<exists>r. Pull i r \<in> set (pullImage_calls env i)) \<longleftrightarrow> listImages env i = Inr [])
   \<and> (\<forall>s. Pull i (Inr s) \<in> set (pullImage_calls env i)
          \<longrightarrow> FollowProgress s (followProgress env s) \<in> set (pullImage_calls env i))
   \<and> (fst (pullImage env i w) = Inr ()
        \<longleftrightarrow> (\<exists>imgs. listImages env i = Inr imgs
               \<and> (imgs \<noteq> [] \<or> (\<exists>s. pull env i = Inr s \<and> followProgress env s = None))))
   \<and> (\<forall>opts r. CreateContainer opts r \<in> set (request_calls env body w)
          \<longrightarrow> fst (pullImage env (Image opts) w) = Inr ()
            \<and> (\<exists>rest. request_calls env body w
                  = pullImage_calls env (Image opts) @ CreateContainer opts r # rest))"
proof -
  have a: "calls (snd (pullImage env i w)) = calls w @ pullImage_calls env i"
    by (rule pullImage_calls_eq)
  have b: "(\<exists>r. Pull i r \<in> set (pullImage_calls env i)) \<longleftrightarrow> listImages env i = Inr []"
    by (auto simp add: pullImage_calls_unfold split: sum.splits if_splits)
  have c: "\<forall>s. Pull i (Inr s) \<in> set (pullImage_calls env i)
          \<longrightarrow> FollowProgress s (followProgress env s) \<in> set (pullImage_calls env i)"
    by (auto simp add: pullImage_calls_unfold split: sum.splits if_splits)
  have d: "fst (pullImage env i w) = Inr ()
        \<longleftrightarrow> (\<exists>imgs. listImages env i = Inr imgs
               \<and> (imgs \<noteq> [] \<or> (\<exists>s. pull env i = Inr s \<and> followProgress env s = None)))"
    by (auto simp add: pullImage_outcome split: sum.splits if_splits option.splits)
  have e: "\<forall>opts r. CreateContainer opts r \<in> set (request_calls env body w)
          \<longrightarrow> fst (pullImage env (Image opts) w) = Inr ()
            \<and> (\<exists>rest. request_calls env body w
                  = pullImage_calls env (Image opts) @ CreateContainer opts r # rest)"
    by (cases rule: execute_paths [where env = env and body = body and w = w])
       (auto simp add: request_options_def container_options_def pullImage_fst [of env _ w])
  show ?thesis using a b c d e by blast
qed

theorem C8_witness:
  "listImages daemon_no_image (Own (lit ''python:3.9-slim'')) = Inr []
   \<and> pullImage_calls daemon_no_image (Own (lit ''python:3.9-slim''))
     = [ListImages (Own (lit ''python:3.9-slim'')) (Inr []),
        Pull (Own (lit ''python:3.9-slim'')) (Inr 0),
        FollowProgress 0 None]
   \<and> fst (pullImage daemon_no_image (Own (lit ''python:3.9-slim'')) idle) = Inr ()
   \<and> take 4 (request_calls daemon_no_image python_request idle)
     = [ListImages (Own (lit ''python:3.9-slim'')) (Inr []),
        Pull (Own (lit ''python:3.9-slim'')) (Inr 0),
        FollowProgress 0 None,
        CreateContainer
          (container_options (Own (lit ''python:3.9-slim''))
             [JString (lit ''python''), JString (lit ''-c''), JString (lit ''print(1+1)'')])
          (Inr python_container)]"
proof -
  let ?i = "Own (lit ''python:3.9-slim'')"
  let ?opts = "container_options ?i
     [JString (lit ''python''), JString (lit ''-c''), JString (lit ''print(1+1)'')]"
  have l: "listImages daemon_no_image ?i = Inr []"
    by (simp add: daemon_no_image_def)
  have p: "pullImage_calls daemon_no_image ?i =
      [ListImages ?i (Inr []), Pull ?i (Inr 0), FollowProgress 0 None]"
    by (simp add: pullImage_calls_unfold daemon_no_image_def daemon_ok_def)
  have h: "CreateContainer ?opts (Inr python_container)
      \<in> set (request_calls daemon_no_image python_request idle)"
    by (simp add: run_defs daemon_no_image_def)
  have i: "Image ?opts = ?i" by (simp add: container_options_def)
  note t = C8_image_ensured_before_create [of daemon_no_image ?i idle python_request]
  from t have ok: "fst (pullImage daemon_no_image ?i idle) = Inr ()"
    using h i by (metis (no_types, lifting))
  from t obtain rest where "request_calls daemon_no_image python_request idle
      = pullImage_calls daemon_no_image ?i @ CreateContainer ?opts (Inr python_container) # rest"
    using h i by (metis (no_types, lifting))
  then have "take 4 (request_calls daemon_no_image python_request idle)
      = [ListImages ?i (Inr []), Pull ?i (Inr 0), FollowProgress 0 None,
         CreateContainer ?opts (Inr python_container)]"
    by (simp add: p)
  then show ?thesis using l p ok by simp
qed

text \<open>
  C9. When \<^verbatim>\<open>language\<close> or \<^verbatim>\<open>code\<close> is present but falsy (\<^verbatim>\<open>null\<close>, \<^verbatim>\<open>false\<close>,
  \<open>0\<close> or the empty string, see \<open>falsy_values\<close>), the response is 400 with the error
  \<^verbatim>\<open>Language and code are required.\<close>, the same response as with the field absent, and
  the world is unchanged: the request makes no call to the runtime.
\<close>

theorem C9_falsy_field_rejected_without_runtime_call:
  assumes "(language body \<noteq> JUndefined \<and> \<not> truthy (language body))
         \<or> (code body \<noteq> JUndefined \<and> \<not> truthy (code body))"
  shows "execute env body w =
           (Inr \<lparr>status = 400, json = [(''error'', lit ''Language and code are required.'')]\<rparr>, w)
       \<and> fst (execute env body w) = fst (execute env (body\<lparr>language := JUndefined\<rparr>) w)
       \<and> fst (execute env body w) = fst (execute env (body\<lparr>code := JUndefined\<rparr>) w)
       \<and> request_calls env body w = []"
proof -
  have "\<not> truthy (language body) \<or> \<not> truthy (code body)" using assms by blast
  then have "execute env body w =
      (Inr \<lparr>status = 400, json = [(''error'', lit ''Language and code are required.'')]\<rparr>, w)"
    by (rule execute_rejected_missing)
  moreover have "execute env (body\<lparr>language := JUndefined\<rparr>) w =
      (Inr \<lparr>status = 400, json = [(''error'', lit ''Language and code are required.'')]\<rparr>, w)"
    by (rule execute_rejected_missing) simp
  moreover have "execute env (body\<lparr>code := JUndefined\<rparr>) w =
      (Inr \<lparr>status = 400, json = [(''error'', lit ''Language and code are required.'')]\<rparr>, w)"
    by (rule execute_rejected_missing) simp
  ultimately show ?thesis by (simp add: request_calls_def)
qed

theorem C9_witness:
  "language \<lparr>language = JString (lit ''python''), code = JString []\<rparr> = JString (lit ''python'')
   \<and> code \<lparr>language = JString (lit ''python''), code = JString []\<rparr> \<noteq> JUndefined
   \<and> execute daemon_ok \<lparr>language = JString (lit ''python''), code = JString []\<rparr> idle =
       (Inr \<lparr>status = 400, json = [(''error'', lit ''Language and code are required.'')]\<rparr>, idle)
   \<and> request_calls daemon_ok \<lparr>language = JString (lit ''python''), code = JString []\<rparr> idle = []"
  using C9_falsy_field_rejected_without_runtime_call
    [of "\<lparr>language = JString (lit ''python''), code = JString []\<rparr>" daemon_ok idle]
  by simp

end
